theory Spec2Isabelle
  imports Complex_Main "HOL-Library.Word"
begin

unbundle bit_operations_syntax

section \<open>Python values and built-ins used by the two engines\<close>

text \<open>
  The embedding covers \<^verbatim>\<open>semantic_engine.py\<close> (class \<^verbatim>\<open>UniversitySemanticEngine\<close>) and
  \<^verbatim>\<open>enhanced_assessment_engine.py\<close> (class \<^verbatim>\<open>EnhancedUniversityAssessmentEngine\<close>).
  Python floats are modelled as exact reals, so a statement about a score is a statement
  about the arithmetic the code writes down, without the rounding error of IEEE doubles.
  Strings are lists of 8-bit characters. A raised exception is a value of \<open>py_error\<close>;
  a function that may raise returns \<open>py_error + 'a\<close>. Mutation of an engine object is
  explicit state passing: a method takes the engine and returns the updated engine.
  Logging and the two clock readings of \<^verbatim>\<open>assess_candidate_enhanced\<close> are left out.
\<close>

datatype py_error =
    ValueError string
  | KeyError string
  | TypeError string
  | AttributeError string
  | PyException string

text \<open>\<^verbatim>\<open>str(e)\<close>: the message; for a \<^verbatim>\<open>KeyError\<close> the quoted key.\<close>

fun str_of_error :: "py_error \<Rightarrow> string" where
  "str_of_error (ValueError m) = m"
| "str_of_error (KeyError k) = [CHR 0x27] @ k @ [CHR 0x27]"
| "str_of_error (TypeError m) = m"
| "str_of_error (AttributeError m) = m"
| "str_of_error (PyException m) = m"

text \<open>\<^verbatim>\<open>sep.join(parts)\<close>.\<close>

fun join :: "string \<Rightarrow> string list \<Rightarrow> string" where
  "join sep [] = []"
| "join sep [x] = x"
| "join sep (x # y # ys) = x @ sep @ join sep (y # ys)"

text \<open>\<^verbatim>\<open>s.strip()\<close>: the white space of \<^verbatim>\<open>str.isspace\<close> among the 8-bit characters.\<close>

definition is_space :: "char \<Rightarrow> bool" where
  "is_space c =
     (let n = of_char c :: nat
      in (9 \<le> n \<and> n \<le> 13) \<or> (28 \<le> n \<and> n \<le> 32) \<or> n = 133 \<or> n = 160)"

definition strip :: "string \<Rightarrow> string" where
  "strip s = rev (dropWhile is_space (rev (dropWhile is_space s)))"

text \<open>\<^verbatim>\<open>str(i)\<close> for a loop index.\<close>

definition digit_char :: "nat \<Rightarrow> char" where
  "digit_char d = char_of (48 + d)"

fun str_of_nat :: "nat \<Rightarrow> string" where
  "str_of_nat n = (if n < 10 then [digit_char n] else str_of_nat (n div 10) @ [digit_char (n mod 10)])"

declare str_of_nat.simps [simp del]

text \<open>
  \<^verbatim>\<open>round(x, n)\<close>: the nearest multiple of \<open>10\<^sup>-\<^sup>n\<close>, a tie going to the even one.
\<close>

definition round_half_even :: "real \<Rightarrow> int" where
  "round_half_even y =
     (let f = \<lfloor>y\<rfloor>; d = y - of_int f
      in if d < 1 / 2 then f else if 1 / 2 < d then f + 1 else if even f then f else f + 1)"

definition py_round :: "real \<Rightarrow> nat \<Rightarrow> real" where
  "py_round x n = of_int (round_half_even (x * 10 ^ n)) / 10 ^ n"

subsection \<open>\<^verbatim>\<open>hashlib.md5\<close>\<close>

text \<open>
  The engine calls \<^verbatim>\<open>hashlib.md5(text.encode())\<close> for its cache keys and for the
  vector it returns when the dependencies are missing. MD5 is written out after RFC 1321 on
  32-bit words; \<^verbatim>\<open>str.encode()\<close> is UTF-8, which for an 8-bit character is one byte
  below 128 and two bytes from 128 on.
\<close>

type_synonym byte = "8 word"

definition utf8_encode :: "string \<Rightarrow> byte list" where
  "utf8_encode s =
     concat (map (\<lambda>c. let n = of_char c :: nat
                        in if n < 128 then [of_nat n]
                           else [of_nat (192 + n div 64), of_nat (128 + n mod 64)]) s)"

definition md5_shift :: "nat list" where
  "md5_shift =
    [7, 12, 17, 22, 7, 12, 17, 22, 7, 12, 17, 22, 7, 12, 17, 22,
     5, 9, 14, 20, 5, 9, 14, 20, 5, 9, 14, 20, 5, 9, 14, 20,
     4, 11, 16, 23, 4, 11, 16, 23, 4, 11, 16, 23, 4, 11, 16, 23,
     6, 10, 15, 21, 6, 10, 15, 21, 6, 10, 15, 21, 6, 10, 15, 21]"

definition md5_K :: "32 word list" where
  "md5_K =
    [0xd76aa478, 0xe8c7b756, 0x242070db, 0xc1bdceee,
     0xf57c0faf, 0x4787c62a, 0xa8304613, 0xfd469501,
     0x698098d8, 0x8b44f7af, 0xffff5bb1, 0x895cd7be,
     0x6b901122, 0xfd987193, 0xa679438e, 0x49b40821,
     0xf61e2562, 0xc040b340, 0x265e5a51, 0xe9b6c7aa,
     0xd62f105d, 0x02441453, 0xd8a1e681, 0xe7d3fbc8,
     0x21e1cde6, 0xc33707d6, 0xf4d50d87, 0x455a14ed,
     0xa9e3e905, 0xfcefa3f8, 0x676f02d9, 0x8d2a4c8a,
     0xfffa3942, 0x8771f681, 0x6d9d6122, 0xfde5380c,
     0xa4beea44, 0x4bdecfa9, 0xf6bb4b60, 0xbebfbc70,
     0x289b7ec6, 0xeaa127fa, 0xd4ef3085, 0x04881d05,
     0xd9d4d039, 0xe6db99e5, 0x1fa27cf8, 0xc4ac5665,
     0xf4292244, 0x432aff97, 0xab9423a7, 0xfc93a039,
     0x655b59c3, 0x8f0ccc92, 0xffeff47d, 0x85845dd1,
     0x6fa87e4f, 0xfe2ce6e0, 0xa3014314, 0x4e0811a1,
     0xf7537e82, 0xbd3af235, 0x2ad7d2bb, 0xeb86d391]"

type_synonym md5_state = "32 word \<times> 32 word \<times> 32 word \<times> 32 word"

definition md5_step :: "32 word list \<Rightarrow> md5_state \<Rightarrow> nat \<Rightarrow> md5_state" where
  "md5_step M st i =
     (case st of (a, b, c, d) \<Rightarrow>
        let (f, g) =
              (if i < 16 then ((b AND c) OR (NOT b AND d), i)
               else if i < 32 then ((d AND b) OR (NOT d AND c), (5 * i + 1) mod 16)
               else if i < 48 then (b XOR c XOR d, (3 * i + 5) mod 16)
               else (c XOR (b OR NOT d), (7 * i) mod 16));
            f' = f + a + md5_K ! i + M ! g
        in (d, b + word_rotl (md5_shift ! i) f', b, c))"

definition le_word :: "byte list \<Rightarrow> 32 word" where
  "le_word bs = foldr (\<lambda>b w. ucast b OR push_bit 8 w) bs 0"

definition word_bytes :: "32 word \<Rightarrow> byte list" where
  "word_bytes w = map (\<lambda>i. ucast (drop_bit (8 * i) w)) [0..<4]"

definition md5_block :: "md5_state \<Rightarrow> byte list \<Rightarrow> md5_state" where
  "md5_block st blk =
     (let M = map (\<lambda>j. le_word (take 4 (drop (4 * j) blk))) [0..<16]
      in case (st, foldl (md5_step M) st [0..<64]) of
           ((a0, b0, c0, d0), (a, b, c, d)) \<Rightarrow> (a0 + a, b0 + b, c0 + c, d0 + d))"

definition md5_pad :: "byte list \<Rightarrow> byte list" where
  "md5_pad msg =
     msg @ [0x80] @ replicate ((119 - length msg mod 64) mod 64) 0
         @ map (\<lambda>i. ucast (drop_bit (8 * i) (of_nat (8 * length msg) :: 64 word))) [0..<8]"

definition md5_digest :: "byte list \<Rightarrow> byte list" where
  "md5_digest msg =
     (let p = md5_pad msg;
          blks = map (\<lambda>k. take 64 (drop (64 * k) p)) [0..<length p div 64]
      in case foldl md5_block (0x67452301, 0xefcdab89, 0x98badcfe, 0x10325476) blks of
           (a, b, c, d) \<Rightarrow> concat (map word_bytes [a, b, c, d]))"

definition hex_digit :: "nat \<Rightarrow> char" where
  "hex_digit n = ''0123456789abcdef'' ! n"

definition hexdigest :: "byte list \<Rightarrow> string" where
  "hexdigest bs = concat (map (\<lambda>b. [hex_digit (unat b div 16), hex_digit (unat b mod 16)]) bs)"

section \<open>The semantic engine (\<^verbatim>\<open>semantic_engine.py\<close>)\<close>

subsection \<open>Data\<close>

text \<open>
  An embedding is a one-dimensional array of numbers. A record of a candidate's sheet
  (one education entry, one position, one training) is a dictionary from field names to
  strings; \<^verbatim>\<open>entry.get(k, '')\<close> is \<open>field\<close>. A candidate and a job are dictionaries whose
  keys are fixed by the code that reads them, so they are records: a list-valued key that
  is absent is the empty list and a string-valued key that is absent is the empty string,
  which are the defaults of every \<^verbatim>\<open>.get\<close> in the engine. The \<^verbatim>\<open>id\<close> of a candidate or
  a job is kept in its printed form, \<open>None\<close> when the key is absent. The field
  \<open>citizenship\<close> is \<^verbatim>\<open>candidate['pds_data']['personal_info']['citizenship']\<close>.
\<close>

type_synonym embedding = "real list"

type_synonym entry = "string \<rightharpoonup> string"

definition field :: "entry \<Rightarrow> string \<Rightarrow> string" where
  "field e k = (case e k of None \<Rightarrow> [] | Some v \<Rightarrow> v)"

record candidate =
  cand_id :: "string option"
  educational_background :: "entry list"
  education :: "entry list"
  work_experience :: "entry list"
  experience :: "entry list"
  learning_development :: "entry list"
  training :: "entry list"
  civil_service_eligibility :: "entry list"
  citizenship :: string

record job =
  job_id :: "string option"
  title :: string
  description :: string
  requirements :: string
  department :: string
  experience_level :: string

text \<open>
  The engine object. \<open>SEMANTIC_DEPENDENCIES_AVAILABLE\<close> is the module-level flag set by
  the guarded import of \<^verbatim>\<open>sentence_transformers\<close> and \<^verbatim>\<open>faiss\<close>. \<open>model\<close> is
  \<^verbatim>\<open>self.model\<close>: \<open>None\<close> when no transformer was loaded, otherwise its \<^verbatim>\<open>encode\<close>
  method, which may raise. \<open>rating_percent\<close> stands for the built-ins
  \<^verbatim>\<open>float(rating) * 100\<close> printed with \<^verbatim>\<open>:.1f\<close>; it is \<open>None\<close> where \<^verbatim>\<open>float\<close> raises.
\<close>

record semantic_engine =
  SEMANTIC_DEPENDENCIES_AVAILABLE :: bool
  model_name :: string
  model :: "(string \<Rightarrow> py_error + embedding) option"
  job_embeddings_cache :: "string \<rightharpoonup> embedding"
  candidate_embeddings_cache :: "string \<rightharpoonup> embedding"
  max_sequence_length :: nat
  similarity_threshold :: real
  rating_percent :: "string \<Rightarrow> string option"

text \<open>The dictionary returned by \<^verbatim>\<open>calculate_detailed_semantic_score\<close>.\<close>

record semantic_details =
  overall_score :: real
  education_relevance :: real
  experience_relevance :: real
  training_relevance :: real
  error :: "string option"
  details_similarity_threshold :: "real option"
  model_used :: "string option"

subsection \<open>Availability, cache keys, text encoding\<close>

definition is_available :: "semantic_engine \<Rightarrow> bool" where
  "is_available eng = SEMANTIC_DEPENDENCIES_AVAILABLE eng"

definition generate_cache_key :: "semantic_engine \<Rightarrow> string \<Rightarrow> string \<Rightarrow> string" where
  "generate_cache_key eng text context =
     hexdigest (md5_digest (utf8_encode (text @ ''_'' @ context @ ''_'' @ model_name eng)))"

text \<open>\<^verbatim>\<open>np.linalg.norm\<close> of a one-dimensional array.\<close>

definition linalg_norm :: "real list \<Rightarrow> real" where
  "linalg_norm v = sqrt (sum_list (map (\<lambda>x. x * x) v))"

text \<open>
  The branch of \<^verbatim>\<open>encode_text\<close> taken when the engine is not available: the 16 bytes of
  the MD5 digest as numbers, padded with zeros or cut to 384 entries, divided by their
  norm when that is positive.
\<close>

definition hash_vector :: "string \<Rightarrow> embedding" where
  "hash_vector text =
     (let hash_bytes = md5_digest (utf8_encode text);
          vector = map (\<lambda>b. real (unat b)) hash_bytes;
          vector = (if length vector < 384
                    then vector @ replicate (384 - length vector) 0
                    else take 384 vector);
          norm = linalg_norm vector
      in if norm > 0 then map (\<lambda>x. x / norm) vector else vector)"

text \<open>
  \<^verbatim>\<open>encode_text(text, context, use_cache)\<close>. The result is the embedding or \<open>None\<close>,
  with the engine after the call. A missing model makes \<^verbatim>\<open>self.model.encode\<close> raise
  inside the \<^verbatim>\<open>try\<close>, which returns \<open>None\<close> like any other exception there.
\<close>

definition encode_text ::
  "semantic_engine \<Rightarrow> string \<Rightarrow> string \<Rightarrow> bool \<Rightarrow> embedding option \<times> semantic_engine" where
  "encode_text eng text context use_cache =
     (if \<not> is_available eng then (Some (hash_vector text), eng)
      else
        let cache_key = generate_cache_key eng text context in
        if use_cache \<and> candidate_embeddings_cache eng cache_key \<noteq> None
        then (candidate_embeddings_cache eng cache_key, eng)
        else
          let text' = (if length text > max_sequence_length eng
                       then take (max_sequence_length eng) text else text)
          in case model eng of
               None \<Rightarrow> (None, eng)
             | Some encode \<Rightarrow>
                 (case encode text' of
                    Inl e \<Rightarrow> (None, eng)
                  | Inr embedding \<Rightarrow>
                      (Some embedding,
                       if use_cache
                       then eng\<lparr>candidate_embeddings_cache :=
                                  (candidate_embeddings_cache eng)(cache_key \<mapsto> embedding)\<rparr>
                       else eng)))"

subsection \<open>Job and candidate texts\<close>

definition job_text_parts :: "job \<Rightarrow> string list" where
  "job_text_parts j =
     (if title j \<noteq> [] then [''Job Title: '' @ title j] else [])
     @ (if department j \<noteq> [] then [''Department: '' @ department j] else [])
     @ (if experience_level j \<noteq> [] then [''Experience Level: '' @ experience_level j] else [])
     @ (if description j \<noteq> [] then [''Description: '' @ description j] else [])
     @ (if requirements j \<noteq> [] then [''Requirements: '' @ requirements j] else [])"

definition id_or_unknown :: "string option \<Rightarrow> string" where
  "id_or_unknown i = (case i of None \<Rightarrow> ''unknown'' | Some s \<Rightarrow> s)"

text \<open>
  \<^verbatim>\<open>encode_job_requirements\<close>. Writing the job cache to disk
  (\<^verbatim>\<open>_save_embedding_cache\<close>) does not change the engine and is left out.
\<close>

definition encode_job_requirements ::
  "semantic_engine \<Rightarrow> job \<Rightarrow> embedding option \<times> semantic_engine" where
  "encode_job_requirements eng j =
     (if \<not> is_available eng then (None, eng)
      else
        let job_text = join '' | '' (job_text_parts j);
            context = ''job_'' @ id_or_unknown (job_id j);
            cache_key = generate_cache_key eng job_text context
        in if job_embeddings_cache eng cache_key \<noteq> None
           then (job_embeddings_cache eng cache_key, eng)
           else
             (case encode_text eng job_text context False of
                (None, eng') \<Rightarrow> (None, eng')
              | (Some embedding, eng') \<Rightarrow>
                  (Some embedding,
                   eng'\<lparr>job_embeddings_cache :=
                           (job_embeddings_cache eng')(cache_key \<mapsto> embedding)\<rparr>)))"

text \<open>The loop bodies of \<^verbatim>\<open>encode_candidate_profile\<close>: each gives the parts it appends.\<close>

definition profile_education_converted :: "entry \<Rightarrow> string list" where
  "profile_education_converted edu =
     (let degree = field edu ''degree''; school = field edu ''school'';
          level = field edu ''level''
      in if degree \<noteq> [] \<or> school \<noteq> []
         then [''Education: '' @ level @ '' '' @ degree @ '' from '' @ school] else [])"

definition degree_course_of :: "entry \<Rightarrow> string" where
  "degree_course_of edu =
     (case edu ''degree_course'' of None \<Rightarrow> field edu ''degree'' | Some v \<Rightarrow> v)"

definition profile_education_pds :: "entry \<Rightarrow> string list" where
  "profile_education_pds edu =
     (let level = field edu ''level''; degree_course = degree_course_of edu;
          school = field edu ''school''; honors = field edu ''honors''
      in if degree_course \<noteq> [] \<or> school \<noteq> []
         then [''Education: '' @ level @ '' '' @ degree_course @ '' from '' @ school
               @ (if honors \<noteq> [] \<and> honors \<noteq> ''N/a'' then '' with '' @ honors else [])]
         else [])"

definition profile_experience_converted :: "entry \<Rightarrow> string list" where
  "profile_experience_converted exp' =
     (let position = field exp' ''position''; company = field exp' ''company'';
          description = field exp' ''description''
      in if position \<noteq> [] \<or> company \<noteq> []
         then [''Experience: '' @ position @ '' at '' @ company
               @ (if description \<noteq> [] then '' - '' @ take 100 description else [])]
         else [])"

definition profile_experience_pds :: "entry \<Rightarrow> string list" where
  "profile_experience_pds exp' =
     (let position = field exp' ''position''; company = field exp' ''company'';
          grade = field exp' ''grade''
      in if position \<noteq> [] \<or> company \<noteq> []
         then [''Experience: '' @ position @ '' at '' @ company
               @ (if grade \<noteq> [] \<and> grade \<noteq> ''N/A'' then '' ('' @ grade @ '')'' else [])]
         else [])"

definition profile_training_converted :: "entry \<Rightarrow> string list" where
  "profile_training_converted cert =
     (let title = field cert ''title''
      in if title \<noteq> [] then [''Training: '' @ title] else [])"

definition profile_training_pds :: "entry \<Rightarrow> string list" where
  "profile_training_pds train =
     (let title = field train ''title''; type_info = field train ''type'';
          hours = field train ''hours''
      in if title \<noteq> []
         then [''Training: '' @ title
               @ (if type_info \<noteq> [] \<and> type_info \<noteq> ''N/a'' then '' ('' @ type_info @ '')'' else [])
               @ (if hours \<noteq> [] then '' - '' @ hours @ '' hours'' else [])]
         else [])"

definition profile_eligibility :: "semantic_engine \<Rightarrow> entry \<Rightarrow> string list" where
  "profile_eligibility eng elig =
     (let eligibility = field elig ''eligibility''; rating = field elig ''rating''
      in if eligibility \<noteq> []
         then [''Eligibility: '' @ eligibility
               @ (if rating \<noteq> []
                  then (case rating_percent eng rating of
                          None \<Rightarrow> []
                        | Some rating_pct \<Rightarrow> '' (Rating: '' @ rating_pct @ ''%)'')
                  else [])]
         else [])"

definition profile_parts :: "semantic_engine \<Rightarrow> candidate \<Rightarrow> string list" where
  "profile_parts eng c =
     (if educational_background c = []
      then concat (map profile_education_converted (take 4 (education c)))
      else concat (map profile_education_pds (take 4 (educational_background c))))
     @ (if work_experience c = []
        then concat (map profile_experience_converted (take 4 (experience c)))
        else concat (map profile_experience_pds (take 4 (work_experience c))))
     @ (if learning_development c = []
        then concat (map profile_training_converted (take 3 (training c)))
        else concat (map profile_training_pds (take 3 (learning_development c))))
     @ concat (map (profile_eligibility eng) (take 2 (civil_service_eligibility c)))
     @ (if citizenship c \<noteq> [] \<and> citizenship c \<noteq> ''N/a''
           \<and> citizenship c \<noteq> ''please indicate the details.''
        then [''Citizenship: '' @ citizenship c] else [])"

text \<open>
  \<^verbatim>\<open>encode_candidate_profile\<close>: a profile text that is empty after \<^verbatim>\<open>strip\<close> is
  reported (``No meaningful text extracted'') and gives \<open>None\<close> without any encoding.
\<close>

definition encode_candidate_profile ::
  "semantic_engine \<Rightarrow> candidate \<Rightarrow> embedding option \<times> semantic_engine" where
  "encode_candidate_profile eng c =
     (if \<not> is_available eng then (None, eng)
      else
        let candidate_text = join '' | '' (profile_parts eng c)
        in if strip candidate_text = [] then (None, eng)
           else encode_text eng candidate_text
                  (''candidate_'' @ id_or_unknown (cand_id c)) True)"

subsection \<open>Similarity\<close>

text \<open>
  \<^verbatim>\<open>np.dot\<close> on the arguments the engine can hold: \<open>None\<close> or a one-dimensional array.
  It raises on \<open>None\<close> and on arrays of different lengths.
\<close>

definition np_dot :: "embedding option \<Rightarrow> embedding option \<Rightarrow> py_error + real" where
  "np_dot a b =
     (case a of
        None \<Rightarrow> Inl (TypeError ''unsupported operand type(s) for *'')
      | Some u \<Rightarrow>
          (case b of
             None \<Rightarrow> Inl (TypeError ''unsupported operand type(s) for *'')
           | Some v \<Rightarrow>
               if length u = length v then Inr (sum_list (map2 (*) u v))
               else Inl (ValueError ''shapes not aligned'')))"

definition calculate_semantic_similarity :: "embedding option \<Rightarrow> embedding option \<Rightarrow> real" where
  "calculate_semantic_similarity candidate_embedding job_embedding =
     (case np_dot candidate_embedding job_embedding of
        Inl e \<Rightarrow> 0
      | Inr similarity \<Rightarrow> max 0 (min 1 ((similarity + 1) / 2)))"

subsection \<open>Category relevance\<close>

definition relevance_education_pds :: "entry \<Rightarrow> string list" where
  "relevance_education_pds edu =
     (let level = field edu ''level''; degree_course = degree_course_of edu;
          school = field edu ''school''; honors = field edu ''honors'';
          year_graduated = field edu ''year_graduated''
      in if degree_course \<noteq> [] \<or> school \<noteq> []
         then [level @ '' '' @ degree_course @ '' from '' @ school
               @ (if honors \<noteq> [] \<and> honors \<noteq> ''N/a'' then '' with '' @ honors else [])
               @ (if year_graduated \<noteq> [] then '' (graduated '' @ year_graduated @ '')'' else [])]
         else [])"

definition relevance_education_converted :: "entry \<Rightarrow> string list" where
  "relevance_education_converted edu =
     (let degree = field edu ''degree''; school = field edu ''school'';
          level = field edu ''level''
      in if degree \<noteq> [] \<or> school \<noteq> []
         then [strip (level @ '' '' @ degree @ '' from '' @ school)] else [])"

definition education_texts :: "candidate \<Rightarrow> string list" where
  "education_texts c =
     (if educational_background c \<noteq> []
      then concat (map relevance_education_pds (take 4 (educational_background c)))
      else if education c \<noteq> []
      then concat (map relevance_education_converted (take 4 (education c)))
      else [])"

definition relevance_experience_pds :: "entry \<Rightarrow> string list" where
  "relevance_experience_pds exp' =
     (let position = field exp' ''position''; company = field exp' ''company'';
          grade = field exp' ''grade''; date_from = field exp' ''date_from'';
          date_to = field exp' ''date_to''
      in if position \<noteq> [] \<or> company \<noteq> []
         then [position @ '' at '' @ company
               @ (if grade \<noteq> [] \<and> grade \<noteq> ''N/A'' then '' (Grade: '' @ grade @ '')'' else [])
               @ (if date_from \<noteq> [] \<or> date_to \<noteq> []
                  then '' ('' @ date_from @ '' to '' @ date_to @ '')'' else [])]
         else [])"

definition relevance_experience_converted :: "entry \<Rightarrow> string list" where
  "relevance_experience_converted exp' =
     (let position = field exp' ''position''; description = field exp' ''description''
      in if position \<noteq> [] \<or> description \<noteq> []
         then [strip (position @ '' - '' @ take 100 description)] else [])"

definition experience_texts :: "candidate \<Rightarrow> string list" where
  "experience_texts c =
     (if work_experience c \<noteq> []
      then concat (map relevance_experience_pds (take 4 (work_experience c)))
      else if experience c \<noteq> []
      then concat (map relevance_experience_converted (take 4 (experience c)))
      else [])"

definition relevance_training_pds :: "entry \<Rightarrow> string list" where
  "relevance_training_pds train =
     (let title = field train ''title''; type_info = field train ''type'';
          conductor = field train ''conductor''; hours = field train ''hours''
      in if title \<noteq> []
         then [title
               @ (if type_info \<noteq> [] \<and> type_info \<noteq> ''N/a'' then '' ('' @ type_info @ '')'' else [])
               @ (if conductor \<noteq> [] then '' by '' @ conductor else [])
               @ (if hours \<noteq> [] then '' - '' @ hours @ '' hours'' else [])]
         else [])"

definition relevance_training_converted :: "entry \<Rightarrow> string list" where
  "relevance_training_converted train =
     (let title = field train ''title''; type_info = field train ''type''
      in if title \<noteq> []
         then [title @ (if type_info \<noteq> [] then '' ('' @ type_info @ '')'' else [])]
         else [])"

definition training_texts :: "candidate \<Rightarrow> string list" where
  "training_texts c =
     (if learning_development c \<noteq> []
      then concat (map relevance_training_pds (take 5 (learning_development c)))
      else if training c \<noteq> []
      then concat (map relevance_training_converted (take 5 (training c)))
      else [])"

text \<open>
  The common second half of the three \<^verbatim>\<open>_calculate_*_relevance\<close> methods: no text gives
  0.0; otherwise both texts are encoded (the candidate's first) and compared, and a failed
  encoding gives 0.0.
\<close>

definition relevance_of_texts ::
  "semantic_engine \<Rightarrow> string list \<Rightarrow> string \<Rightarrow> string \<Rightarrow> string \<Rightarrow> real \<times> semantic_engine" where
  "relevance_of_texts eng texts job_text context job_context =
     (if texts = [] then (0, eng)
      else
        case encode_text eng (join '' | '' texts) context True of
          (cand_embedding, eng1) \<Rightarrow>
            (case encode_text eng1 job_text job_context True of
               (job_embedding, eng2) \<Rightarrow>
                 if cand_embedding = None \<or> job_embedding = None then (0, eng2)
                 else (calculate_semantic_similarity cand_embedding job_embedding, eng2)))"

definition calculate_education_relevance ::
  "semantic_engine \<Rightarrow> candidate \<Rightarrow> job \<Rightarrow> real \<times> semantic_engine" where
  "calculate_education_relevance eng c j =
     relevance_of_texts eng (education_texts c)
       (title j @ '' '' @ requirements j) ''education'' ''job_edu_comparison''"

definition calculate_experience_relevance ::
  "semantic_engine \<Rightarrow> candidate \<Rightarrow> job \<Rightarrow> real \<times> semantic_engine" where
  "calculate_experience_relevance eng c j =
     relevance_of_texts eng (experience_texts c)
       (title j @ '' '' @ description j @ '' '' @ requirements j)
       ''experience'' ''job_exp_comparison''"

definition calculate_training_relevance ::
  "semantic_engine \<Rightarrow> candidate \<Rightarrow> job \<Rightarrow> real \<times> semantic_engine" where
  "calculate_training_relevance eng c j =
     relevance_of_texts eng (training_texts c)
       (title j @ '' '' @ description j @ '' '' @ requirements j)
       ''training'' ''job_training_comparison''"

subsection \<open>The detailed score\<close>

definition failed_details :: "string \<Rightarrow> semantic_details" where
  "failed_details msg =
     \<lparr>overall_score = 0, education_relevance = 0, experience_relevance = 0,
      training_relevance = 0, error = Some msg,
      details_similarity_threshold = None, model_used = None\<rparr>"

definition calculate_detailed_semantic_score ::
  "semantic_engine \<Rightarrow> candidate \<Rightarrow> job \<Rightarrow> semantic_details \<times> semantic_engine" where
  "calculate_detailed_semantic_score eng c j =
     (if \<not> is_available eng then (failed_details ''Semantic engine not available'', eng)
      else
        case encode_candidate_profile eng c of
          (candidate_embedding, eng1) \<Rightarrow>
        case encode_job_requirements eng1 j of
          (job_embedding, eng2) \<Rightarrow>
        if candidate_embedding = None \<or> job_embedding = None
        then (failed_details ''Failed to generate embeddings'', eng2)
        else
          let overall = calculate_semantic_similarity candidate_embedding job_embedding in
          case calculate_education_relevance eng2 c j of
            (education_score, eng3) \<Rightarrow>
          case calculate_experience_relevance eng3 c j of
            (experience_score, eng4) \<Rightarrow>
          case calculate_training_relevance eng4 c j of
            (training_score, eng5) \<Rightarrow>
          (\<lparr>overall_score = py_round overall 3,
            education_relevance = py_round education_score 3,
            experience_relevance = py_round experience_score 3,
            training_relevance = py_round training_score 3,
            error = None,
            details_similarity_threshold = Some (similarity_threshold eng5),
            model_used = Some (model_name eng5)\<rparr>, eng5))"

section \<open>The enhanced assessment engine (\<^verbatim>\<open>enhanced_assessment_engine.py\<close>)\<close>

subsection \<open>Data\<close>

text \<open>
  The \<^verbatim>\<open>breakdown\<close> dictionary of \<^verbatim>\<open>_calculate_semantic_assessment\<close>, its three nested
  dictionaries flattened: \<open>education_weighted\<close> to \<open>quality_bonus\<close> are
  \<^verbatim>\<open>weighted_components\<close>, \<open>base_weighted_score\<close> to \<open>final_score_0_100\<close> are
  \<^verbatim>\<open>final_calculation\<close>, the last two fields are \<^verbatim>\<open>model_info\<close>.
\<close>

record semantic_breakdown =
  breakdown_education_relevance :: real
  breakdown_experience_relevance :: real
  breakdown_training_relevance :: real
  overall_similarity :: real
  education_weighted :: real
  experience_weighted :: real
  training_weighted :: real
  quality_bonus :: real
  base_weighted_score :: real
  final_quality_bonus :: real
  final_score_0_1 :: real
  final_score_0_100 :: real
  weights_used :: "string \<rightharpoonup> real"
  info_model_name :: string
  info_similarity_threshold :: real

record semantic_result =
  final_score :: real
  breakdown :: semantic_breakdown

record assessment_stats =
  total_assessments :: nat
  semantic_assessments :: nat
  traditional_assessments :: nat
  fallback_to_traditional :: nat

text \<open>
  The engine object. \<open>assess_candidate\<close> is the method inherited from
  \<^verbatim>\<open>UniversityAssessmentEngine\<close> (module \<^verbatim>\<open>assessment_engine\<close>), the rule-based
  scorer: it raises or returns a dictionary of numbers, of which the enhanced engine reads
  \<^verbatim>\<open>final_score\<close> and five component scores.
\<close>

record enhanced_engine =
  semantic_engine :: semantic_engine
  semantic_weights :: "string \<rightharpoonup> real"
  assessment_stats :: assessment_stats
  assess_candidate :: "candidate \<Rightarrow> job \<Rightarrow> py_error + (string \<rightharpoonup> real)"

text \<open>
  The result dictionary of \<^verbatim>\<open>assess_candidate_enhanced\<close>. A value that is \<^verbatim>\<open>None\<close> in
  Python is \<open>None\<close>; the empty \<^verbatim>\<open>semantic_breakdown\<close> and \<^verbatim>\<open>performance_metrics\<close> are
  \<open>None\<close>; \<open>performance_metrics\<close> holds \<^verbatim>\<open>semantic_available\<close> and \<^verbatim>\<open>model_used\<close>. The
  shorter dictionary that \<^verbatim>\<open>batch_assess_candidates\<close> builds in its handler is the same
  record with the keys it lacks at \<open>None\<close>.
\<close>

record assessment =
  candidate_id :: "string option"
  assessed_job_id :: "string option"
  semantic_score :: "real option"
  traditional_score :: "real option"
  recommended_score :: "real option"
  assessment_method :: string
  semantic_breakdown :: "semantic_breakdown option"
  traditional_breakdown :: "string \<rightharpoonup> real"
  performance_metrics :: "(bool \<times> string) option"
  errors :: "string list"

text \<open>The weights set by \<^verbatim>\<open>__init__\<close>.\<close>

definition default_semantic_weights :: "string \<rightharpoonup> real" where
  "default_semantic_weights =
     [''education_relevance'' \<mapsto> 0.35, ''experience_relevance'' \<mapsto> 0.45,
      ''training_relevance'' \<mapsto> 0.15, ''overall_quality_bonus'' \<mapsto> 0.05]"

definition initial_stats :: assessment_stats where
  "initial_stats =
     \<lparr>total_assessments = 0, semantic_assessments = 0,
      traditional_assessments = 0, fallback_to_traditional = 0\<rparr>"

subsection \<open>The weighted semantic score\<close>

text \<open>\<^verbatim>\<open>weights[key]\<close>, which raises \<^verbatim>\<open>KeyError\<close> on a missing key.\<close>

definition weight :: "(string \<rightharpoonup> real) \<Rightarrow> string \<Rightarrow> py_error + real" where
  "weight w k = (case w k of None \<Rightarrow> Inl (KeyError k) | Some v \<Rightarrow> Inr v)"

text \<open>
  \<^verbatim>\<open>_calculate_semantic_assessment\<close> from the point where it holds the detailed scores:
  an \<^verbatim>\<open>error\<close> key raises, otherwise the four scores are weighted, scaled to 0--100,
  clamped and rounded to one decimal.
\<close>

definition semantic_assessment_of ::
  "(string \<rightharpoonup> real) \<Rightarrow> semantic_details \<Rightarrow> py_error + semantic_result" where
  "semantic_assessment_of weights semantic_details =
     (case error semantic_details of
        Some msg \<Rightarrow> Inl (PyException msg)
      | None \<Rightarrow>
     case weight weights ''education_relevance'' of Inl e \<Rightarrow> Inl e | Inr w_education \<Rightarrow>
     case weight weights ''experience_relevance'' of Inl e \<Rightarrow> Inl e | Inr w_experience \<Rightarrow>
     case weight weights ''training_relevance'' of Inl e \<Rightarrow> Inl e | Inr w_training \<Rightarrow>
     case weight weights ''overall_quality_bonus'' of Inl e \<Rightarrow> Inl e | Inr w_bonus \<Rightarrow>
       let education_relevance = education_relevance semantic_details;
           experience_relevance = experience_relevance semantic_details;
           training_relevance = training_relevance semantic_details;
           overall_score = overall_score semantic_details;
           weighted_score = education_relevance * w_education
                            + experience_relevance * w_experience
                            + training_relevance * w_training;
           quality_bonus = overall_score * w_bonus;
           final_semantic_score = (weighted_score + quality_bonus) * 100;
           final_semantic_score = max 0 (min 100 final_semantic_score)
       in Inr \<lparr>final_score = py_round final_semantic_score 1,
               breakdown =
                 \<lparr>breakdown_education_relevance = py_round education_relevance 3,
                  breakdown_experience_relevance = py_round experience_relevance 3,
                  breakdown_training_relevance = py_round training_relevance 3,
                  overall_similarity = py_round overall_score 3,
                  education_weighted = py_round (education_relevance * w_education) 3,
                  experience_weighted = py_round (experience_relevance * w_experience) 3,
                  training_weighted = py_round (training_relevance * w_training) 3,
                  quality_bonus = py_round quality_bonus 3,
                  base_weighted_score = py_round weighted_score 3,
                  final_quality_bonus = py_round quality_bonus 3,
                  final_score_0_1 = py_round (weighted_score + quality_bonus) 3,
                  final_score_0_100 = py_round final_semantic_score 1,
                  weights_used = weights,
                  info_model_name =
                    (case model_used semantic_details of None \<Rightarrow> ''unknown'' | Some m \<Rightarrow> m),
                  info_similarity_threshold =
                    (case details_similarity_threshold semantic_details of
                       None \<Rightarrow> 0.3 | Some t \<Rightarrow> t)\<rparr>\<rparr>)"

definition calculate_semantic_assessment ::
  "enhanced_engine \<Rightarrow> candidate \<Rightarrow> job \<Rightarrow> (py_error + semantic_result) \<times> enhanced_engine" where
  "calculate_semantic_assessment eng c j =
     (case calculate_detailed_semantic_score (semantic_engine eng) c j of
        (semantic_details, se) \<Rightarrow>
          (semantic_assessment_of (semantic_weights eng) semantic_details,
           eng\<lparr>semantic_engine := se\<rparr>))"

subsection \<open>Single assessment\<close>

definition initial_result :: "candidate \<Rightarrow> job \<Rightarrow> assessment" where
  "initial_result c j =
     \<lparr>candidate_id = cand_id c, assessed_job_id = job_id j,
      semantic_score = None, traditional_score = None, recommended_score = None,
      assessment_method = ''hybrid'', semantic_breakdown = None,
      traditional_breakdown = Map.empty, performance_metrics = None, errors = []\<rparr>"

text \<open>\<^verbatim>\<open>traditional_result.get(key, 0)\<close>.\<close>

definition get_score :: "(string \<rightharpoonup> real) \<Rightarrow> string \<Rightarrow> real" where
  "get_score d k = (case d k of None \<Rightarrow> 0 | Some v \<Rightarrow> v)"

text \<open>
  The first block of \<^verbatim>\<open>assess_candidate_enhanced\<close>: the semantic score, when it is asked
  for and the engine is available. On an exception the message is recorded and, when the
  traditional score is asked for too, the method is set to \<^verbatim>\<open>traditional_fallback\<close>.
\<close>

definition semantic_block ::
  "enhanced_engine \<Rightarrow> candidate \<Rightarrow> job \<Rightarrow> bool \<Rightarrow> bool \<Rightarrow> assessment
     \<Rightarrow> assessment \<times> enhanced_engine" where
  "semantic_block eng c j include_semantic include_traditional result =
     (if include_semantic \<and> is_available (semantic_engine eng)
      then
        case calculate_semantic_assessment eng c j of
          (Inr semantic_result, eng1) \<Rightarrow>
            (result\<lparr>semantic_score := Some (final_score semantic_result),
                    semantic_breakdown := Some (breakdown semantic_result),
                    recommended_score := Some (final_score semantic_result),
                    assessment_method := ''semantic''\<rparr>,
             eng1\<lparr>assessment_stats := (assessment_stats eng1)
                     \<lparr>semantic_assessments := semantic_assessments (assessment_stats eng1) + 1\<rparr>\<rparr>)
        | (Inl e, eng1) \<Rightarrow>
            let result1 = result\<lparr>errors := errors result
                                    @ [''Semantic assessment failed: '' @ str_of_error e]\<rparr>
            in if include_traditional
               then (result1\<lparr>assessment_method := ''traditional_fallback''\<rparr>,
                     eng1\<lparr>assessment_stats := (assessment_stats eng1)
                             \<lparr>fallback_to_traditional :=
                                fallback_to_traditional (assessment_stats eng1) + 1\<rparr>\<rparr>)
               else (result1, eng1)
      else (result, eng))"

text \<open>
  The second block: the traditional score, when it is asked for. It becomes the
  recommended score when there is none yet, and the method is then set to
  \<^verbatim>\<open>traditional\<close>.
\<close>

definition traditional_block ::
  "enhanced_engine \<Rightarrow> candidate \<Rightarrow> job \<Rightarrow> bool \<Rightarrow> assessment
     \<Rightarrow> assessment \<times> enhanced_engine" where
  "traditional_block eng c j include_traditional result =
     (if include_traditional
      then
        case assess_candidate eng c j of
          Inr traditional_result \<Rightarrow>
            let result1 = result
                  \<lparr>traditional_score := Some (get_score traditional_result ''final_score''),
                   traditional_breakdown :=
                     [''education_score'' \<mapsto> get_score traditional_result ''education_score'',
                      ''experience_score'' \<mapsto> get_score traditional_result ''experience_score'',
                      ''training_score'' \<mapsto> get_score traditional_result ''training_score'',
                      ''eligibility_score'' \<mapsto> get_score traditional_result ''eligibility_score'',
                      ''accomplishments_score'' \<mapsto>
                         get_score traditional_result ''accomplishments_score'']\<rparr>;
                result2 = (if recommended_score result1 = None
                           then result1
                                  \<lparr>recommended_score :=
                                     Some (get_score traditional_result ''final_score''),
                                   assessment_method := ''traditional''\<rparr>
                           else result1)
            in (result2,
                eng\<lparr>assessment_stats := (assessment_stats eng)
                       \<lparr>traditional_assessments :=
                          traditional_assessments (assessment_stats eng) + 1\<rparr>\<rparr>)
        | Inl e \<Rightarrow>
            (result\<lparr>errors := errors result
                       @ [''Traditional assessment failed: '' @ str_of_error e]\<rparr>, eng)
      else (result, eng))"

text \<open>
  The end of the method: the metrics, the default when no score was recommended, the
  count of assessments.
\<close>

definition final_block :: "enhanced_engine \<Rightarrow> assessment \<Rightarrow> assessment \<times> enhanced_engine" where
  "final_block eng result =
     (let result1 = result
            \<lparr>performance_metrics :=
               Some (is_available (semantic_engine eng), model_name (semantic_engine eng))\<rparr>;
          result2 = (if recommended_score result1 = None
                     then result1\<lparr>recommended_score := Some 0,
                                  assessment_method := ''failed'',
                                  errors := errors result1 @ [''No assessment method succeeded'']\<rparr>
                     else result1)
      in (result2,
          eng\<lparr>assessment_stats := (assessment_stats eng)
                 \<lparr>total_assessments := total_assessments (assessment_stats eng) + 1\<rparr>\<rparr>))"

text \<open>
  \<^verbatim>\<open>assess_candidate_enhanced\<close>. \<open>Inl\<close> would be an exception leaving the call; both
  scoring blocks catch every \<^verbatim>\<open>Exception\<close> and nothing outside them raises, so the
  value is always \<open>Inr\<close>.
\<close>

definition assess_candidate_enhanced ::
  "enhanced_engine \<Rightarrow> candidate \<Rightarrow> job \<Rightarrow> bool \<Rightarrow> bool
     \<Rightarrow> py_error + assessment \<times> enhanced_engine" where
  "assess_candidate_enhanced eng c j include_semantic include_traditional =
     (case semantic_block eng c j include_semantic include_traditional (initial_result c j) of
        (result1, eng1) \<Rightarrow>
     case traditional_block eng1 c j include_traditional result1 of
        (result2, eng2) \<Rightarrow>
     Inr (final_block eng2 result2))"

subsection \<open>Batch assessment\<close>

definition error_result :: "candidate \<Rightarrow> job \<Rightarrow> nat \<Rightarrow> py_error \<Rightarrow> assessment" where
  "error_result c j i e =
     \<lparr>candidate_id =
        Some (case cand_id c of None \<Rightarrow> ''unknown_'' @ str_of_nat i | Some s \<Rightarrow> s),
      assessed_job_id = job_id j,
      semantic_score = None, traditional_score = None, recommended_score = Some 0,
      assessment_method = ''failed'', semantic_breakdown = None,
      traditional_breakdown = Map.empty, performance_metrics = None,
      errors = [''Assessment failed: '' @ str_of_error e]\<rparr>"

text \<open>
  The loop of \<^verbatim>\<open>batch_assess_candidates\<close> from index \<open>i\<close> on: one result per candidate,
  appended in order; an exception from the assessment of a candidate gives the handler's
  result for it and the loop goes on.
\<close>

fun batch_loop ::
  "enhanced_engine \<Rightarrow> job \<Rightarrow> bool \<Rightarrow> nat \<Rightarrow> candidate list
     \<Rightarrow> assessment list \<times> enhanced_engine" where
  "batch_loop eng j include_semantic i [] = ([], eng)"
| "batch_loop eng j include_semantic i (c # cs) =
     (case assess_candidate_enhanced eng c j include_semantic True of
        Inr (assessment, eng1) \<Rightarrow>
          (case batch_loop eng1 j include_semantic (Suc i) cs of
             (results, eng2) \<Rightarrow> (assessment # results, eng2))
      | Inl e \<Rightarrow>
          (case batch_loop eng j include_semantic (Suc i) cs of
             (results, eng2) \<Rightarrow> (error_result c j i e # results, eng2)))"

text \<open>
  \<^verbatim>\<open>batch_assess_candidates\<close>: the job embedding is computed first (which fills the job
  cache), then the loop runs.
\<close>

definition batch_assess_candidates ::
  "enhanced_engine \<Rightarrow> candidate list \<Rightarrow> job \<Rightarrow> bool \<Rightarrow> assessment list \<times> enhanced_engine" where
  "batch_assess_candidates eng candidates_data j include_semantic =
     (let eng0 = (if include_semantic \<and> is_available (semantic_engine eng)
                  then eng\<lparr>semantic_engine :=
                              snd (encode_job_requirements (semantic_engine eng) j)\<rparr>
                  else eng)
      in batch_loop eng0 j include_semantic 0 candidates_data)"

subsection \<open>Updating the weights\<close>

definition required_keys :: "string list" where
  "required_keys =
     [''education_relevance'', ''experience_relevance'', ''skills_relevance'',
      ''overall_quality_bonus'']"

text \<open>
  \<^verbatim>\<open>update_semantic_weights\<close>: \<^verbatim>\<open>ValueError\<close> for the first required key that is
  missing; otherwise the new weights are merged into the engine's, and the flag says
  whether the warning about the sum of the first three was logged.
\<close>

definition update_semantic_weights ::
  "enhanced_engine \<Rightarrow> (string \<rightharpoonup> real) \<Rightarrow> py_error + bool \<times> enhanced_engine" where
  "update_semantic_weights eng new_weights =
     (case find (\<lambda>key. new_weights key = None) required_keys of
        Some key \<Rightarrow> Inl (ValueError (''Missing required weight: '' @ key))
      | None \<Rightarrow>
          let total_weight = sum_list (map (get_score new_weights) (take 3 required_keys))
          in Inr (total_weight < 0.8 \<or> total_weight > 1.2,
                  eng\<lparr>semantic_weights := semantic_weights eng ++ new_weights\<rparr>))"

section \<open>Notions used in the statements\<close>

text \<open>The dot product of two arrays and the property of having Euclidean norm 1.\<close>

definition dot :: "real list \<Rightarrow> real list \<Rightarrow> real" where
  "dot u v = sum_list (map2 (*) u v)"

definition l2_normalized :: "real list \<Rightarrow> bool" where
  "l2_normalized v = (linalg_norm v = 1)"


text \<open>
  A scoring path gives no score: the semantic one when it is not asked for, when the
  engine is not available or when the computation raises; the traditional one when it is
  not asked for or when it raises.
\<close>

definition no_semantic_score :: "enhanced_engine \<Rightarrow> candidate \<Rightarrow> job \<Rightarrow> bool \<Rightarrow> bool" where
  "no_semantic_score eng c j include_semantic =
     (\<not> (include_semantic \<and> is_available (semantic_engine eng))
      \<or> isl (fst (calculate_semantic_assessment eng c j)))"

definition no_traditional_score :: "enhanced_engine \<Rightarrow> candidate \<Rightarrow> job \<Rightarrow> bool \<Rightarrow> bool" where
  "no_traditional_score eng c j include_traditional =
     (\<not> include_traditional \<or> isl (assess_candidate eng c j))"

text \<open>
  A candidate from whom \<^verbatim>\<open>encode_candidate_profile\<close> extracts no text: every list of the
  sheet is empty and there is no citizenship entry that counts.
\<close>

definition no_profile_data :: "candidate \<Rightarrow> bool" where
  "no_profile_data c =
     (educational_background c = [] \<and> education c = [] \<and> work_experience c = []
      \<and> experience c = [] \<and> learning_development c = [] \<and> training c = []
      \<and> civil_service_eligibility c = []
      \<and> citizenship c \<in> {[], ''N/a'', ''please indicate the details.''})"

text \<open>
  What one entry of a batch result says about its candidate, given the traditional scorer:
  it carries the candidate's id and the metrics of a completed assessment, its recommended
  score is a number, a \<^verbatim>\<open>failed\<close> entry has score 0 and a recorded error, and the
  traditional score is there exactly when the traditional scorer returned one.
\<close>

definition item_result ::
  "(candidate \<Rightarrow> job \<Rightarrow> py_error + (string \<rightharpoonup> real)) \<Rightarrow> job \<Rightarrow> candidate
     \<Rightarrow> assessment \<Rightarrow> bool" where
  "item_result traditional j c r =
     (candidate_id r = cand_id c
      \<and> performance_metrics r \<noteq> None
      \<and> recommended_score r \<noteq> None
      \<and> (assessment_method r = ''failed'' \<longrightarrow> recommended_score r = Some 0 \<and> errors r \<noteq> [])
      \<and> (case traditional c j of
            Inr t \<Rightarrow> assessment_method r \<noteq> ''failed''
                      \<and> traditional_score r = Some (get_score t ''final_score'')
          | Inl e \<Rightarrow> traditional_score r = None
                      \<and> (semantic_score r = None \<longrightarrow> assessment_method r = ''failed'')))"

subsection \<open>Engines, candidates and a job for the examples\<close>

text \<open>
  The semantic engine as \<^verbatim>\<open>__init__\<close> leaves it: without the dependencies no model is
  loaded; both caches are empty.
\<close>

definition new_semantic_engine ::
  "bool \<Rightarrow> (string \<Rightarrow> py_error + embedding) option \<Rightarrow> (string \<Rightarrow> string option)
     \<Rightarrow> semantic_engine" where
  "new_semantic_engine deps loaded fmt =
     \<lparr>SEMANTIC_DEPENDENCIES_AVAILABLE = deps, model_name = ''all-MiniLM-L6-v2'',
      model = (if deps then loaded else None),
      job_embeddings_cache = Map.empty, candidate_embeddings_cache = Map.empty,
      max_sequence_length = 512, similarity_threshold = 0.3, rating_percent = fmt\<rparr>"

definition new_enhanced_engine ::
  "semantic_engine \<Rightarrow> (candidate \<Rightarrow> job \<Rightarrow> py_error + (string \<rightharpoonup> real))
     \<Rightarrow> enhanced_engine" where
  "new_enhanced_engine se traditional =
     \<lparr>semantic_engine = se, semantic_weights = default_semantic_weights,
      assessment_stats = initial_stats, assess_candidate = traditional\<rparr>"

text \<open>A transformer that embeds every text as the same unit vector.\<close>

definition unit_model :: "string \<Rightarrow> py_error + embedding" where
  "unit_model text = Inr [1, 0]"

text \<open>
  Three traditional scorers: one that gives every candidate the final score 72, one that
  always raises, and one that raises for the candidate with id 7 only.
\<close>

definition traditional_72 :: "candidate \<Rightarrow> job \<Rightarrow> py_error + (string \<rightharpoonup> real)" where
  "traditional_72 c j = Inr [''final_score'' \<mapsto> 72]"

definition traditional_down :: "candidate \<Rightarrow> job \<Rightarrow> py_error + (string \<rightharpoonup> real)" where
  "traditional_down c j = Inl (PyException ''database is locked'')"

definition traditional_except_7 :: "candidate \<Rightarrow> job \<Rightarrow> py_error + (string \<rightharpoonup> real)" where
  "traditional_except_7 c j =
     (if cand_id c = Some ''7'' then Inl (PyException ''database is locked'')
      else Inr [''final_score'' \<mapsto> 72])"

definition offline_semantic_engine :: semantic_engine where
  "offline_semantic_engine = new_semantic_engine False None (\<lambda>rating. None)"

definition online_semantic_engine :: semantic_engine where
  "online_semantic_engine = new_semantic_engine True (Some unit_model) (\<lambda>rating. None)"

definition offline_engine :: enhanced_engine where
  "offline_engine = new_enhanced_engine offline_semantic_engine traditional_72"

definition online_engine :: enhanced_engine where
  "online_engine = new_enhanced_engine online_semantic_engine traditional_72"

definition broken_engine :: enhanced_engine where
  "broken_engine = new_enhanced_engine online_semantic_engine traditional_down"

definition offline_engine_except_7 :: enhanced_engine where
  "offline_engine_except_7 = new_enhanced_engine offline_semantic_engine traditional_except_7"

definition empty_candidate :: "string option \<Rightarrow> candidate" where
  "empty_candidate i =
     \<lparr>cand_id = i, educational_background = [], education = [], work_experience = [],
      experience = [], learning_development = [], training = [],
      civil_service_eligibility = [], citizenship = []\<rparr>"

definition phd_candidate :: candidate where
  "phd_candidate =
     (empty_candidate (Some ''1''))
       \<lparr>education := [[''degree'' \<mapsto> ''PhD'', ''school'' \<mapsto> ''Stanford University'']]\<rparr>"

definition professor_job :: job where
  "professor_job =
     \<lparr>job_id = Some ''1'', title = ''Assistant Professor - Computer Science'',
      description = ''Teaching undergraduate and graduate courses in computer science'',
      requirements = ''PhD in Computer Science, teaching experience, research publications'',
      department = ''Computer Science'', experience_level = ''Entry Level''\<rparr>"





section \<open>The MD5 model against the RFC 1321 test suite\<close>

lemma md5_empty_string:
  "hexdigest (md5_digest (utf8_encode [])) = ''d41d8cd98f00b204e9800998ecf8427e''"
  by code_simp



section \<open>Rounding and norms\<close>



lemma py_round_0 [simp]: "py_round 0 n = 0"
  by (simp add: py_round_def round_half_even_def)

lemma py_round_1 [simp]: "py_round 1 n = 1"
  by (simp add: py_round_def round_half_even_def)





lemma dot_self: "sum_list (map2 (*) v v) = sum_list (map (\<lambda>x. x * x) v)"
  by (induction v) auto

lemma normalized_dot_self: "l2_normalized v \<Longrightarrow> sum_list (map2 (*) v v) = 1"
  by (simp add: l2_normalized_def linalg_norm_def dot_self)

lemma dot_upper:
  "length u = length v \<Longrightarrow>
   2 * sum_list (map2 (*) u v)
     \<le> sum_list (map (\<lambda>x. x * x) u) + sum_list (map (\<lambda>x. x * x) v)"
  for u v :: "real list"
proof (induction u v rule: list_induct2)
  case Nil
  then show ?case by simp
next
  case (Cons x xs y ys)
  have "2 * (x * y) \<le> x * x + y * y"
    using sum_squares_bound [of x y] by (simp add: power2_eq_square)
  with Cons.IH show ?case by simp
qed

lemma dot_lower:
  "length u = length v \<Longrightarrow>
   - (sum_list (map (\<lambda>x. x * x) u) + sum_list (map (\<lambda>x. x * x) v))
     \<le> 2 * sum_list (map2 (*) u v)"
  for u v :: "real list"
proof (induction u v rule: list_induct2)
  case Nil
  then show ?case by simp
next
  case (Cons x xs y ys)
  have "0 \<le> (x + y) * (x + y)"
    by simp
  then have "- (x * x + y * y) \<le> 2 * (x * y)"
    by (simp add: algebra_simps)
  with Cons.IH show ?case by simp
qed

lemma normalized_squares: "l2_normalized v \<Longrightarrow> sum_list (map (\<lambda>x. x * x) v) = 1"
  by (simp add: l2_normalized_def linalg_norm_def)

lemma normalized_dot_range:
  assumes "length a = length b" "l2_normalized a" "l2_normalized b"
  shows "- 1 \<le> dot a b \<and> dot a b \<le> 1"
  using dot_upper [OF assms(1)] dot_lower [OF assms(1)]
    normalized_squares [OF assms(2)] normalized_squares [OF assms(3)]
  by (simp add: dot_def)

section \<open>The weighted semantic score\<close>

lemma weight_default [simp]:
  "weight default_semantic_weights ''education_relevance'' = Inr 0.35"
  "weight default_semantic_weights ''experience_relevance'' = Inr 0.45"
  "weight default_semantic_weights ''training_relevance'' = Inr 0.15"
  "weight default_semantic_weights ''overall_quality_bonus'' = Inr 0.05"
  by (simp_all add: weight_def default_semantic_weights_def)






section \<open>Similarity\<close>

lemma similarity_bounds:
  "0 \<le> calculate_semantic_similarity a b \<and> calculate_semantic_similarity a b \<le> 1"
  by (simp add: calculate_semantic_similarity_def split: sum.split)

lemma similarity_raise: "np_dot a b = Inl e \<Longrightarrow> calculate_semantic_similarity a b = 0"
  by (simp add: calculate_semantic_similarity_def)


text \<open>
  Claim C3. For two embeddings of the same length the similarity is the dot product
  rescaled by \<open>(dot + 1) / 2\<close> and clamped to [0, 1], so it lies in [0, 1]. When both
  have norm 1 the dot product lies in [-1, 1] and the clamp changes nothing; and the
  similarity of a vector of norm 1 with itself is 1.
\<close>

theorem similarity_rescaled_dot:
  assumes "length a = length b"
  shows "calculate_semantic_similarity (Some a) (Some b) = max 0 (min 1 ((dot a b + 1) / 2))
       \<and> 0 \<le> calculate_semantic_similarity (Some a) (Some b)
       \<and> calculate_semantic_similarity (Some a) (Some b) \<le> 1
       \<and> (l2_normalized a \<and> l2_normalized b \<longrightarrow>
             - 1 \<le> dot a b \<and> dot a b \<le> 1
           \<and> calculate_semantic_similarity (Some a) (Some b) = (dot a b + 1) / 2)
       \<and> (l2_normalized a \<longrightarrow> calculate_semantic_similarity (Some a) (Some a) = 1)"
proof -
  have e: "calculate_semantic_similarity (Some a) (Some b) = max 0 (min 1 ((dot a b + 1) / 2))"
    using assms by (simp add: calculate_semantic_similarity_def np_dot_def dot_def)
  have n: "- 1 \<le> dot a b \<and> dot a b \<le> 1
           \<and> calculate_semantic_similarity (Some a) (Some b) = (dot a b + 1) / 2"
    if "l2_normalized a \<and> l2_normalized b"
    using normalized_dot_range [OF assms] that e by simp
  have s: "calculate_semantic_similarity (Some a) (Some a) = 1" if "l2_normalized a"
    using that by (simp add: calculate_semantic_similarity_def np_dot_def normalized_dot_self)
  from e n s similarity_bounds [of "Some a" "Some b"] show ?thesis
    by blast
qed

text \<open>C3 at the unit vectors (3/5, 4/5) and (1, 0).\<close>

theorem similarity_rescaled_dot_witness:
  "length [3 / 5, 4 / 5 :: real] = length [1, 0 :: real]
   \<and> l2_normalized [3 / 5, 4 / 5] \<and> l2_normalized [1, 0]
   \<and> calculate_semantic_similarity (Some [3 / 5, 4 / 5]) (Some [1, 0]) = 4 / 5
   \<and> calculate_semantic_similarity (Some [3 / 5, 4 / 5]) (Some [3 / 5, 4 / 5]) = 1"
proof -
  have n: "l2_normalized [3 / 5, 4 / 5]" "l2_normalized [1, 0]"
    by (simp_all add: l2_normalized_def linalg_norm_def)
  have "length [3 / 5, 4 / 5 :: real] = length [1, 0 :: real]"
    by simp
  from similarity_rescaled_dot [OF this] n show ?thesis
    by (simp add: dot_def)
qed

text \<open>
  Claim C9. On every pair of arguments (\<open>None\<close> or an array of any length) the similarity
  is a number in [0, 1], and it is 0 whenever the dot product raises.
\<close>

theorem similarity_total:
  "0 \<le> calculate_semantic_similarity a b \<and> calculate_semantic_similarity a b \<le> 1
   \<and> (\<forall>e. np_dot a b = Inl e \<longrightarrow> calculate_semantic_similarity a b = 0)"
  by (simp add: similarity_bounds similarity_raise)

text \<open>C9 at \<open>None\<close> against an array, and at arrays of lengths 2 and 1.\<close>

theorem similarity_total_witness:
  "np_dot None (Some [1]) = Inl (TypeError ''unsupported operand type(s) for *'')
   \<and> calculate_semantic_similarity None (Some [1]) = 0
   \<and> np_dot (Some [1, 0]) (Some [1]) = Inl (ValueError ''shapes not aligned'')
   \<and> calculate_semantic_similarity (Some [1, 0]) (Some [1]) = 0"
proof -
  have a: "np_dot None (Some [1]) = Inl (TypeError ''unsupported operand type(s) for *'')"
    by (simp add: np_dot_def)
  have b: "np_dot (Some [1, 0]) (Some [1]) = Inl (ValueError ''shapes not aligned'')"
    by (simp add: np_dot_def)
  from similarity_total [of None "Some [1]"] similarity_total [of "Some [1, 0]" "Some [1]"] a b
  show ?thesis by simp
qed

section \<open>Encoding without the dependencies\<close>










section \<open>The unavailable engine\<close>

text \<open>
  Claim C10. \<^verbatim>\<open>is_available\<close> is the import flag, whatever \<^verbatim>\<open>self.model\<close> holds. When it
  is false, \<^verbatim>\<open>encode_job_requirements\<close> and \<^verbatim>\<open>encode_candidate_profile\<close> return \<open>None\<close>
  and leave the engine unchanged (they do not reach \<^verbatim>\<open>encode_text\<close>), and
  \<^verbatim>\<open>calculate_detailed_semantic_score\<close> returns the four scores 0.0 with the error
  ``Semantic engine not available''.
\<close>

theorem unavailable_engine:
  "is_available eng = SEMANTIC_DEPENDENCIES_AVAILABLE eng
   \<and> is_available (eng\<lparr>model := m\<rparr>) = is_available eng
   \<and> (\<not> is_available eng \<longrightarrow>
        encode_job_requirements eng j = (None, eng)
      \<and> encode_candidate_profile eng c = (None, eng)
      \<and> calculate_detailed_semantic_score eng c j
          = (\<lparr>overall_score = 0, education_relevance = 0, experience_relevance = 0,
              training_relevance = 0, error = Some ''Semantic engine not available'',
              details_similarity_threshold = None, model_used = None\<rparr>, eng))"
  by (simp add: is_available_def encode_job_requirements_def encode_candidate_profile_def
        calculate_detailed_semantic_score_def failed_details_def)

text \<open>C10 on the engine built without the dependencies, for a candidate with a degree.\<close>

theorem unavailable_engine_witness:
  "\<not> is_available offline_semantic_engine
   \<and> encode_job_requirements offline_semantic_engine professor_job
       = (None, offline_semantic_engine)
   \<and> encode_candidate_profile offline_semantic_engine phd_candidate
       = (None, offline_semantic_engine)
   \<and> error (fst (calculate_detailed_semantic_score offline_semantic_engine phd_candidate
                    professor_job)) = Some ''Semantic engine not available''
   \<and> overall_score (fst (calculate_detailed_semantic_score offline_semantic_engine
                    phd_candidate professor_job)) = 0"
proof -
  have a: "\<not> is_available offline_semantic_engine"
    by (simp add: offline_semantic_engine_def new_semantic_engine_def is_available_def)
  from unavailable_engine [of offline_semantic_engine None professor_job phd_candidate] a
  show ?thesis by simp
qed

section \<open>Single assessment\<close>

lemma assess_candidate_after_semantic:
  "assess_candidate (snd (calculate_semantic_assessment eng c j)) = assess_candidate eng"
  by (simp add: calculate_semantic_assessment_def split: prod.split)

lemma stats_after_semantic:
  "assessment_stats (snd (calculate_semantic_assessment eng c j)) = assessment_stats eng"
  by (simp add: calculate_semantic_assessment_def split: prod.split)

text \<open>
  Claim C5. When neither path gives a score, \<^verbatim>\<open>assess_candidate_enhanced\<close> still returns
  a result (no exception leaves the call): its recommended score is the number 0, its
  method is \<^verbatim>\<open>failed\<close>, and its error list is not empty, ending with ``No assessment
  method succeeded''.
\<close>

theorem both_paths_fail:
  assumes "no_semantic_score eng c j include_semantic"
    and "no_traditional_score eng c j include_traditional"
  shows "\<exists>r eng'. assess_candidate_enhanced eng c j include_semantic include_traditional
                    = Inr (r, eng')
           \<and> recommended_score r = Some 0 \<and> assessment_method r = ''failed''
           \<and> errors r \<noteq> [] \<and> last (errors r) = ''No assessment method succeeded''"
proof -
  obtain sr eng1 where sa: "calculate_semantic_assessment eng c j = (sr, eng1)"
    by (cases "calculate_semantic_assessment eng c j")
  have tr: "assess_candidate eng1 = assess_candidate eng"
    using assess_candidate_after_semantic [of eng c j] sa by simp
  show ?thesis
    using assms sa tr
    by (auto simp: assess_candidate_enhanced_def semantic_block_def traditional_block_def
          final_block_def initial_result_def no_semantic_score_def no_traditional_score_def
          Let_def isl_def split: sum.splits)
qed

text \<open>
  The fallback of C2, as the code has it. When the semantic path gives no score and the
  traditional assessment, asked for, returns the final score \<open>T\<close>, the result recommends
  \<open>T\<close>. When the semantic path was skipped (not asked for, or the engine not available)
  the method is \<^verbatim>\<open>traditional\<close> and no error is recorded.
\<close>

theorem traditional_recommended_when_semantic_fails:
  assumes "no_semantic_score eng c j include_semantic"
    and "assess_candidate eng c j = Inr t" and "t ''final_score'' = Some T"
  shows "\<exists>r eng'. assess_candidate_enhanced eng c j include_semantic True = Inr (r, eng')
           \<and> recommended_score r = Some T \<and> traditional_score r = Some T
           \<and> (\<not> (include_semantic \<and> is_available (semantic_engine eng))
                \<longrightarrow> assessment_method r = ''traditional'' \<and> errors r = [])"
proof -
  obtain sr eng1 where sa: "calculate_semantic_assessment eng c j = (sr, eng1)"
    by (cases "calculate_semantic_assessment eng c j")
  have tr: "assess_candidate eng1 = assess_candidate eng"
    using assess_candidate_after_semantic [of eng c j] sa by simp
  show ?thesis
    using assms sa tr
    by (auto simp: assess_candidate_enhanced_def semantic_block_def traditional_block_def
          final_block_def initial_result_def no_semantic_score_def get_score_def
          Let_def isl_def split: sum.splits)
qed

lemma offline_engine_facts:
  "\<not> is_available (semantic_engine offline_engine)"
  "assess_candidate offline_engine c j = Inr [''final_score'' \<mapsto> 72]"
  by (simp_all add: offline_engine_def new_enhanced_engine_def offline_semantic_engine_def
        new_semantic_engine_def is_available_def traditional_72_def)

text \<open>
  The scenario of C2 on the engine built without the dependencies, with a traditional
  scorer that returns 72: the recommended score is 72 and the method is \<^verbatim>\<open>traditional\<close>.
\<close>

theorem traditional_recommended_when_semantic_fails_witness:
  "no_semantic_score offline_engine phd_candidate professor_job True
   \<and> assess_candidate offline_engine phd_candidate professor_job
       = Inr [''final_score'' \<mapsto> 72]
   \<and> (\<exists>r eng'. assess_candidate_enhanced offline_engine phd_candidate professor_job True True
                  = Inr (r, eng')
        \<and> recommended_score r = Some 72 \<and> traditional_score r = Some 72
        \<and> assessment_method r = ''traditional'' \<and> errors r = [])"
proof -
  have a: "no_semantic_score offline_engine phd_candidate professor_job True"
    by (simp add: no_semantic_score_def offline_engine_facts)
  have b: "assess_candidate offline_engine phd_candidate professor_job
             = Inr [''final_score'' \<mapsto> 72]"
    by (rule offline_engine_facts)
  have c: "[''final_score'' \<mapsto> 72 :: real] ''final_score'' = Some 72"
    by simp
  from traditional_recommended_when_semantic_fails [OF a b c] offline_engine_facts(1) a b
  show ?thesis by blast
qed

text \<open>
  C2 as stated fails on that input: the semantic path is unavailable, the traditional
  assessment succeeds with 72, and the method returned is \<^verbatim>\<open>traditional\<close>, not
  \<^verbatim>\<open>traditional_fallback\<close>.
\<close>

theorem fallback_method_is_traditional:
  "no_semantic_score offline_engine phd_candidate professor_job True
   \<and> assess_candidate offline_engine phd_candidate professor_job
       = Inr [''final_score'' \<mapsto> 72]
   \<and> map_sum id (recommended_score \<circ> fst)
       (assess_candidate_enhanced offline_engine phd_candidate professor_job True True)
     = Inr (Some 72)
   \<and> map_sum id (assessment_method \<circ> fst)
       (assess_candidate_enhanced offline_engine phd_candidate professor_job True True)
     = Inr ''traditional''
   \<and> ''traditional'' \<noteq> ''traditional_fallback''"
  by (simp add: offline_engine_facts no_semantic_score_def
        assess_candidate_enhanced_def semantic_block_def traditional_block_def
        final_block_def initial_result_def get_score_def Let_def)

text \<open>
  What happens to the label when the semantic computation raises: the handler of the
  first block sets \<^verbatim>\<open>traditional_fallback\<close> and counts a fallback, and the second block,
  finding no recommended score yet, sets \<^verbatim>\<open>traditional\<close> over it. The result therefore
  never carries \<^verbatim>\<open>traditional_fallback\<close> together with a traditional score.
\<close>

lemma fallback_label_overwritten:
  assumes "include_semantic" and "is_available (semantic_engine eng)"
    and "fst (calculate_semantic_assessment eng c j) = Inl e"
    and "assess_candidate eng c j = Inr t"
  shows "\<exists>r eng'. assess_candidate_enhanced eng c j include_semantic True = Inr (r, eng')
           \<and> assessment_method r = ''traditional''
           \<and> errors r = [''Semantic assessment failed: '' @ str_of_error e]
           \<and> fallback_to_traditional (assessment_stats eng')
               = fallback_to_traditional (assessment_stats eng) + 1"
proof -
  obtain sr eng1 where sa: "calculate_semantic_assessment eng c j = (sr, eng1)"
    by (cases "calculate_semantic_assessment eng c j")
  have tr: "assess_candidate eng1 = assess_candidate eng"
    using assess_candidate_after_semantic [of eng c j] sa by simp
  have st: "assessment_stats eng1 = assessment_stats eng"
    using stats_after_semantic [of eng c j] sa by simp
  show ?thesis
    using assms sa tr st
    by (simp add: assess_candidate_enhanced_def semantic_block_def traditional_block_def
          final_block_def initial_result_def Let_def)
qed

lemma assessment_method_values:
  assumes "assess_candidate_enhanced eng c j include_semantic include_traditional = Inr (r, eng')"
  shows "assessment_method r \<in> {''semantic'', ''traditional'', ''failed''}"
proof -
  obtain sr eng1 where sa: "calculate_semantic_assessment eng c j = (sr, eng1)"
    by (cases "calculate_semantic_assessment eng c j")
  show ?thesis
    using assms sa
    by (auto simp: assess_candidate_enhanced_def semantic_block_def traditional_block_def
          final_block_def initial_result_def Let_def split: sum.splits if_splits)
qed

section \<open>A candidate without data\<close>

lemma profile_parts_empty: "no_profile_data c \<Longrightarrow> profile_parts eng c = []"
  by (auto simp: no_profile_data_def profile_parts_def)

lemma encode_empty_profile:
  "no_profile_data c \<Longrightarrow> encode_candidate_profile eng c = (None, eng)"
  by (simp add: encode_candidate_profile_def profile_parts_empty strip_def)

lemma detailed_score_empty_profile:
  assumes "is_available eng" "no_profile_data c"
  shows "calculate_detailed_semantic_score eng c j
           = (failed_details ''Failed to generate embeddings'',
              snd (encode_job_requirements eng j))"
  using assms
  by (simp add: calculate_detailed_semantic_score_def encode_empty_profile split: prod.split)

lemma semantic_assessment_empty_profile:
  assumes "is_available (semantic_engine eng)" "no_profile_data c"
  shows "fst (calculate_semantic_assessment eng c j)
           = Inl (PyException ''Failed to generate embeddings'')"
  using assms
  by (simp add: calculate_semantic_assessment_def detailed_score_empty_profile
        semantic_assessment_of_def failed_details_def)



lemma online_engine_facts:
  "is_available (semantic_engine online_engine)"
  "assess_candidate online_engine c j = Inr [''final_score'' \<mapsto> 72]"
  "semantic_weights online_engine = default_semantic_weights"
  by (simp_all add: online_engine_def new_enhanced_engine_def online_semantic_engine_def
        new_semantic_engine_def is_available_def traditional_72_def)

lemma empty_candidate_no_data: "no_profile_data (empty_candidate i)"
  by (simp add: no_profile_data_def empty_candidate_def)


text \<open>
  C5 with both paths raising: the candidate without data makes the semantic computation
  raise on the available engine, and the traditional scorer raises as well.
\<close>

theorem both_paths_fail_witness:
  "no_semantic_score broken_engine (empty_candidate (Some ''7'')) professor_job True
   \<and> no_traditional_score broken_engine (empty_candidate (Some ''7'')) professor_job True
   \<and> (\<exists>r eng'. assess_candidate_enhanced broken_engine (empty_candidate (Some ''7''))
                  professor_job True True = Inr (r, eng')
          \<and> recommended_score r = Some 0 \<and> assessment_method r = ''failed''
          \<and> errors r \<noteq> [])"
proof -
  have av: "is_available (semantic_engine broken_engine)"
    by (simp add: broken_engine_def new_enhanced_engine_def online_semantic_engine_def
          new_semantic_engine_def is_available_def)
  have a: "no_semantic_score broken_engine (empty_candidate (Some ''7'')) professor_job True"
    using semantic_assessment_empty_profile [OF av empty_candidate_no_data, of "Some ''7''"
        professor_job]
    by (simp add: no_semantic_score_def)
  have b: "no_traditional_score broken_engine (empty_candidate (Some ''7'')) professor_job True"
    by (simp add: no_traditional_score_def broken_engine_def new_enhanced_engine_def
          traditional_down_def)
  from both_paths_fail [OF a b] a b show ?thesis
    by blast
qed

subsection \<open>The same call for a candidate with a degree\<close>













section \<open>Batch assessment\<close>

lemma assess_item:
  "\<exists>r eng'. assess_candidate_enhanced eng c j include_semantic True = Inr (r, eng')
      \<and> assess_candidate eng' = assess_candidate eng
      \<and> item_result (assess_candidate eng) j c r"
proof -
  obtain sr eng1 where sa: "calculate_semantic_assessment eng c j = (sr, eng1)"
    by (cases "calculate_semantic_assessment eng c j")
  have tr: "assess_candidate eng1 = assess_candidate eng"
    using assess_candidate_after_semantic [of eng c j] sa by simp
  show ?thesis
    using sa tr
    by (auto simp: assess_candidate_enhanced_def semantic_block_def traditional_block_def
          final_block_def initial_result_def item_result_def Let_def
          split: sum.splits)
qed

lemma batch_loop_items:
  "assess_candidate eng = traditional \<Longrightarrow>
   list_all2 (item_result traditional j) cs (fst (batch_loop eng j include_semantic i cs))"
proof (induction cs arbitrary: eng i)
  case Nil
  then show ?case by simp
next
  case (Cons c cs)
  obtain r eng1 where a: "assess_candidate_enhanced eng c j include_semantic True = Inr (r, eng1)"
      "assess_candidate eng1 = assess_candidate eng" "item_result (assess_candidate eng) j c r"
    using assess_item [of eng c j include_semantic] by blast
  have "list_all2 (item_result traditional j) cs
          (fst (batch_loop eng1 j include_semantic (Suc i) cs))"
    using Cons.IH [of eng1 "Suc i"] a(2) Cons.prems by simp
  then show ?case
    using a Cons.prems by (simp add: split_beta)
qed

lemma batch_items:
  "list_all2 (item_result (assess_candidate eng) j) cs
     (fst (batch_assess_candidates eng cs j include_semantic))"
  by (simp add: batch_assess_candidates_def Let_def batch_loop_items)

text \<open>
  Claim C7. For every list of candidates the batch returns one result per candidate, in
  the order of the input (the ids agree position by position). Each result comes from a
  completed assessment of its own candidate, whatever happened to the others: its
  recommended score is a number; a \<^verbatim>\<open>failed\<close> result has score 0 and a recorded error;
  a candidate for whom the traditional scorer returns a score is not \<^verbatim>\<open>failed\<close> and
  carries that score; and a candidate for whom the traditional scorer raises and who has
  no semantic score is \<^verbatim>\<open>failed\<close>.
\<close>

theorem batch_isolates_failures:
  "length (fst (batch_assess_candidates eng cs j include_semantic)) = length cs
   \<and> map candidate_id (fst (batch_assess_candidates eng cs j include_semantic))
       = map cand_id cs
   \<and> (\<forall>k<length cs.
         let r = fst (batch_assess_candidates eng cs j include_semantic) ! k in
           recommended_score r \<noteq> None
         \<and> performance_metrics r \<noteq> None
         \<and> (assessment_method r = ''failed'' \<longrightarrow>
                recommended_score r = Some 0 \<and> errors r \<noteq> [])
         \<and> (\<forall>t. assess_candidate eng (cs ! k) j = Inr t \<longrightarrow>
                assessment_method r \<noteq> ''failed''
              \<and> traditional_score r = Some (get_score t ''final_score''))
         \<and> (isl (assess_candidate eng (cs ! k) j) \<and> semantic_score r = None \<longrightarrow>
                assessment_method r = ''failed''))"
proof -
  let ?rs = "fst (batch_assess_candidates eng cs j include_semantic)"
  have all: "list_all2 (item_result (assess_candidate eng) j) cs ?rs"
    by (rule batch_items)
  have 1: "length ?rs = length cs"
    using all by (simp add: list_all2_lengthD)
  have 2: "map candidate_id ?rs = map cand_id cs"
    using all by (induction rule: list_all2_induct) (simp_all add: item_result_def)
  have 3: "item_result (assess_candidate eng) j (cs ! k) (?rs ! k)" if "k < length cs" for k
    using all that by (simp add: list_all2_nthD)
  have 4: "let r = ?rs ! k in
           recommended_score r \<noteq> None
         \<and> performance_metrics r \<noteq> None
         \<and> (assessment_method r = ''failed'' \<longrightarrow>
                recommended_score r = Some 0 \<and> errors r \<noteq> [])
         \<and> (\<forall>t. assess_candidate eng (cs ! k) j = Inr t \<longrightarrow>
                assessment_method r \<noteq> ''failed''
              \<and> traditional_score r = Some (get_score t ''final_score''))
         \<and> (isl (assess_candidate eng (cs ! k) j) \<and> semantic_score r = None \<longrightarrow>
                assessment_method r = ''failed'')" if "k < length cs" for k
    using 3 [OF that] by (auto simp: item_result_def Let_def isl_def split: sum.splits)
  show ?thesis
    using 1 2 4 by blast
qed

lemma offline_except_7_facts:
  "\<not> is_available (semantic_engine offline_engine_except_7)"
  "assess_candidate offline_engine_except_7 = traditional_except_7"
  by (simp_all add: offline_engine_except_7_def new_enhanced_engine_def
        offline_semantic_engine_def new_semantic_engine_def is_available_def)

lemma offline_batch_first:
  "semantic_score
     (fst (batch_assess_candidates offline_engine_except_7
             [empty_candidate (Some ''7''), phd_candidate] professor_job True) ! 0) = None"
  by (simp add: batch_assess_candidates_def offline_except_7_facts
        assess_candidate_enhanced_def semantic_block_def traditional_block_def
        final_block_def initial_result_def traditional_except_7_def empty_candidate_def
        Let_def split_beta)

text \<open>
  C7 on a batch of two, the first of which makes the traditional scorer raise while the
  engine has no semantic scoring: two results come back, the first \<^verbatim>\<open>failed\<close> with score
  0 and a recorded error, the second assessed with the traditional score 72.
\<close>

theorem batch_isolates_failures_witness:
  "length (fst (batch_assess_candidates offline_engine_except_7
             [empty_candidate (Some ''7''), phd_candidate] professor_job True)) = 2
   \<and> map candidate_id (fst (batch_assess_candidates offline_engine_except_7
             [empty_candidate (Some ''7''), phd_candidate] professor_job True))
       = [Some ''7'', Some ''1'']
   \<and> assessment_method (fst (batch_assess_candidates offline_engine_except_7
             [empty_candidate (Some ''7''), phd_candidate] professor_job True) ! 0) = ''failed''
   \<and> recommended_score (fst (batch_assess_candidates offline_engine_except_7
             [empty_candidate (Some ''7''), phd_candidate] professor_job True) ! 0) = Some 0
   \<and> errors (fst (batch_assess_candidates offline_engine_except_7
             [empty_candidate (Some ''7''), phd_candidate] professor_job True) ! 0) \<noteq> []
   \<and> assessment_method (fst (batch_assess_candidates offline_engine_except_7
             [empty_candidate (Some ''7''), phd_candidate] professor_job True) ! 1) \<noteq> ''failed''
   \<and> traditional_score (fst (batch_assess_candidates offline_engine_except_7
             [empty_candidate (Some ''7''), phd_candidate] professor_job True) ! 1) = Some 72"
proof -
  let ?cs = "[empty_candidate (Some ''7''), phd_candidate]"
  let ?rs = "fst (batch_assess_candidates offline_engine_except_7 ?cs professor_job True)"
  note inst = batch_isolates_failures [of offline_engine_except_7 ?cs professor_job True]
  have ids: "map cand_id ?cs = [Some ''7'', Some ''1'']"
    by (simp add: empty_candidate_def phd_candidate_def)
  have f0: "isl (assess_candidate offline_engine_except_7 (?cs ! 0) professor_job)"
    by (simp add: offline_except_7_facts traditional_except_7_def empty_candidate_def)
  have f1: "assess_candidate offline_engine_except_7 (?cs ! 1) professor_job
              = Inr [''final_score'' \<mapsto> 72]"
    by (simp add: offline_except_7_facts traditional_except_7_def empty_candidate_def
          phd_candidate_def)
  have g: "get_score [''final_score'' \<mapsto> 72] ''final_score'' = 72"
    by (simp add: get_score_def)
  have k0: "assessment_method (?rs ! 0) = ''failed''
            \<and> recommended_score (?rs ! 0) = Some 0 \<and> errors (?rs ! 0) \<noteq> []"
  proof -
    have "(0 :: nat) < length ?cs" by simp
    with inst f0 offline_batch_first show ?thesis
      unfolding Let_def by blast
  qed
  have k1: "assessment_method (?rs ! 1) \<noteq> ''failed'' \<and> traditional_score (?rs ! 1) = Some 72"
  proof -
    have "(1 :: nat) < length ?cs" by simp
    with inst f1 g show ?thesis
      unfolding Let_def by metis
  qed
  from inst ids k0 k1 show ?thesis
    by simp
qed

section \<open>Updating the weights\<close>




text \<open>
  The third required key is \<^verbatim>\<open>skills_relevance\<close>, while the engine's own third weight,
  the one \<^verbatim>\<open>_calculate_semantic_assessment\<close> reads, is \<^verbatim>\<open>training_relevance\<close>. A
  full set of the engine's four weights is therefore rejected, and a set accepted by the
  check leaves the training weight as it was unless it names that key as well.
\<close>

lemma update_rejects_training_key:
  "update_semantic_weights eng
     [''education_relevance'' \<mapsto> 0.4, ''experience_relevance'' \<mapsto> 0.4,
      ''training_relevance'' \<mapsto> 0.2, ''overall_quality_bonus'' \<mapsto> 0.05]
   = Inl (ValueError ''Missing required weight: skills_relevance'')"
  by (simp add: update_semantic_weights_def required_keys_def)

lemma update_keeps_training_weight:
  "map_sum id (\<lambda>(warned, eng'). weight (semantic_weights eng') ''training_relevance'')
     (update_semantic_weights online_engine
        [''education_relevance'' \<mapsto> 0.3, ''experience_relevance'' \<mapsto> 0.3,
         ''skills_relevance'' \<mapsto> 0.4, ''overall_quality_bonus'' \<mapsto> 0.05])
   = Inr (Inr 0.15)"
  by (simp add: update_semantic_weights_def required_keys_def get_score_def weight_def
        online_engine_facts default_semantic_weights_def map_add_def)

end
